theory Spec2Isabelle
  imports Main
begin

section \<open>Text\<close>

text \<open>
  Python's \<open>str\<close> is modelled as \<^typ>\<open>string\<close>: a \<^typ>\<open>char\<close> stands for one code
  point below 256. Text with code points from 256 on is outside the model.

  \<open>str.isspace\<close> holds for exactly these twelve code points below 256 (the characters
  that \<open>str.strip()\<close> removes when it is called without an argument).
\<close>

definition isspace :: "char \<Rightarrow> bool" where
  "isspace c \<longleftrightarrow> c \<in> set [CHR 0x09, CHR 0x0A, CHR 0x0B, CHR 0x0C, CHR 0x0D,
       CHR 0x1C, CHR 0x1D, CHR 0x1E, CHR 0x1F, CHR 0x20, CHR 0x85, CHR 0xA0]"

text \<open>\<open>s.strip()\<close>: drop the whitespace at both ends.\<close>

definition str_strip :: "string \<Rightarrow> string" where
  "str_strip s = rev (dropWhile isspace (rev (dropWhile isspace s)))"

text \<open>\<open>s.startswith(p)\<close>.\<close>

definition startswith :: "string \<Rightarrow> string \<Rightarrow> bool" where
  "startswith s p \<longleftrightarrow> take (length p) s = p"

text \<open>\<open>needle in s\<close> on strings: \<open>needle\<close> starts at some position of \<open>s\<close>.\<close>

fun substring_in :: "string \<Rightarrow> string \<Rightarrow> bool" where
  "substring_in needle [] \<longleftrightarrow> needle = []"
| "substring_in needle (c # cs) \<longleftrightarrow> startswith (c # cs) needle \<or> substring_in needle cs"

text \<open>
  \<open>s.lower()\<close>: below 256 the letters with a lowercase form are \<open>A\<close> to \<open>Z\<close> and
  the code points 192 to 222 without 215; the lowercase form is 32 further on.
\<close>

definition lower_char :: "char \<Rightarrow> char" where
  "lower_char c =
     (let n = (of_char c :: nat)
      in if (65 \<le> n \<and> n \<le> 90) \<or> (192 \<le> n \<and> n \<le> 222 \<and> n \<noteq> 215)
         then char_of (n + 32) else c)"

definition lower :: "string \<Rightarrow> string" where
  "lower s = map lower_char s"

text \<open>
  \<open>s.split(sep)\<close> for a separator of one character: the text before the first
  separator, then the split of the text after it; a text without separator is its
  own single fragment (so the result is never empty).
\<close>

function str_split :: "char \<Rightarrow> string \<Rightarrow> string list" where
  "str_split sep s =
     (case dropWhile (\<lambda>c. c \<noteq> sep) s of
        [] \<Rightarrow> [s]
      | _ # rest \<Rightarrow> takeWhile (\<lambda>c. c \<noteq> sep) s # str_split sep rest)"
  by pat_completeness auto
termination
proof (relation "measure (\<lambda>(sep, s). length s)")
  show "wf (measure (\<lambda>(sep, s). length s))" by simp
next
  fix sep :: char and s :: string and x rest
  assume "dropWhile (\<lambda>c. c \<noteq> sep) s = x # rest"
  then have "length (dropWhile (\<lambda>c. c \<noteq> sep) s) = Suc (length rest)" by simp
  moreover have "length (dropWhile (\<lambda>c. c \<noteq> sep) s) \<le> length s"
    by (rule length_dropWhile_le)
  ultimately show "((sep, rest), (sep, s)) \<in> measure (\<lambda>(sep, s). length s)" by simp
qed

declare str_split.simps [simp del]

text \<open>\<open>sep.join(fragments)\<close>, the inverse of \<open>split\<close>.\<close>

fun str_join :: "char \<Rightarrow> string list \<Rightarrow> string" where
  "str_join sep [] = []"
| "str_join sep [f] = f"
| "str_join sep (f # g # fs) = f @ sep # str_join sep (g # fs)"

text \<open>
  The first occurrence of a separator of any length: the text before it and the text
  after it, or \<open>None\<close> when the separator does not occur.
\<close>

fun cut_at :: "string \<Rightarrow> string \<Rightarrow> (string \<times> string) option" where
  "cut_at sep [] = None"
| "cut_at sep (c # cs) =
     (if startswith (c # cs) sep then Some ([], drop (length sep) (c # cs))
      else map_option (\<lambda>(before, after). (c # before, after)) (cut_at sep cs))"

section \<open>The statement splitter\<close>

text \<open>
  \<^verbatim>\<open>apply_migration.py\<close>, line 36:
  \<^verbatim>\<open>statements = [s.strip() for s in migration_sql.split(';')
                if s.strip() and not s.strip().startswith('--')]\<close>
\<close>

definition statements :: "string \<Rightarrow> string list" where
  "statements migration_sql =
     map str_strip
       (filter (\<lambda>s. str_strip s \<noteq> [] \<and> \<not> startswith (str_strip s) ''--'')
          (str_split (CHR '';'') migration_sql))"

text \<open>
  The splitter in the words of the specification: split on \<open>;\<close>, trim each fragment,
  discard the fragment if it is empty or begins with \<open>--\<close>.
\<close>

definition split_spec :: "string \<Rightarrow> string list" where
  "split_spec rawSql =
     filter (\<lambda>fragment. fragment \<noteq> [] \<and> \<not> startswith fragment ''--'')
       (map str_strip (str_split (CHR '';'') rawSql))"

section \<open>The remote service and the printed lines\<close>

text \<open>
  The hosted database is a parameter. Its state \<open>'db\<close> is threaded through every
  call, so an answer may depend on all earlier calls.

  An executor stands for \<^verbatim>\<open>supabase.rpc('exec_sql', {'sql': statement}).execute()\<close>:
  \<open>None\<close> when the call returns, \<open>Some e\<close> when it raises an exception whose
  \<open>str\<close> is \<open>e\<close>. A querier stands for
  \<^verbatim>\<open>supabase.table(t).select('id', count='exact').limit(0).execute()\<close>: \<open>Inr c\<close>
  when it returns a result with \<open>count = c\<close>, \<open>Inl e\<close> when it raises.
\<close>

type_synonym 'db executor = "string \<Rightarrow> 'db \<Rightarrow> string option \<times> 'db"

type_synonym 'db querier = "string \<Rightarrow> 'db \<Rightarrow> (string + int) \<times> 'db"

datatype remote_call = Rpc_exec_sql string | Select_count string

text \<open>
  One constructor for each \<open>print\<close> of the two scripts, with the values that the
  printed line interpolates. The fixed blocks of instructions are one constructor each.
\<close>

datatype line =
    Connecting string
  | Reading_migration_file
  | Applying_migration
  | Executing nat
  | Progress nat nat
  | Statement_warning nat string
  | Statement_text string
  | Migration_applied
  | Verifying_tables
  | Table_exists string int
  | All_verified
  | Error_applying string
  | Run_manually string
  | Connecting_project string
  | Url string
  | File_size nat
  | Options string string
  | Checking_tables
  | Table_missing string
  | All_tables_exist
  | Partial_migration nat
  | No_tables_found
  | Could_not_verify string

section \<open>The migration applier\<close>

text \<open>
  Each round of the loop of \<^verbatim>\<open>apply_migration.py\<close> (lines 41 to 59) takes one of four
  paths, named here after the outcomes of the specification: the statement is skipped
  by the guard of line 43 (\<open>Not_submitted\<close>), the call returns (\<open>Applied\<close>), the call
  raises and the message is tolerated (\<open>Skipped_idempotent\<close>), or the call raises and
  the two warning lines are printed (\<open>Failed\<close>). The script keeps no counters; a round
  records the statement it submitted, the path it took and what it printed.
\<close>

datatype outcome = Not_submitted | Applied | Skipped_idempotent | Failed

record round =
  call :: "string option"
  outcome :: outcome
  printed :: "line list"

definition apply_statement ::
  "'db executor \<Rightarrow> nat \<Rightarrow> nat \<Rightarrow> string \<Rightarrow> 'db \<Rightarrow> round \<times> 'db" where
  "apply_statement ex total' i statement d =
     (if statement = [] \<or> startswith statement ''--''
      then (\<lparr>call = None, outcome = Not_submitted, printed = []\<rparr>, d)
      else
        (case ex statement d of
           (None, d') \<Rightarrow>
             (\<lparr>call = Some statement, outcome = Applied,
               printed = (if i mod 10 = 0 then [Progress i total'] else [])\<rparr>, d')
         | (Some e, d') \<Rightarrow>
             (let error_msg = lower e
              in if \<not> substring_in ''already exists'' error_msg
                    \<and> \<not> substring_in ''duplicate'' error_msg
                 then (\<lparr>call = Some statement, outcome = Failed,
                        printed = [Statement_warning i e,
                                   Statement_text (take 100 statement)]\<rparr>, d')
                 else (\<lparr>call = Some statement, outcome = Skipped_idempotent,
                        printed = []\<rparr>, d'))))"

text \<open>\<^verbatim>\<open>for i, statement in enumerate(statements, 1)\<close>: \<open>i\<close> is the number of the round.\<close>

fun apply_loop ::
  "'db executor \<Rightarrow> nat \<Rightarrow> nat \<Rightarrow> string list \<Rightarrow> 'db \<Rightarrow> round list \<times> 'db" where
  "apply_loop ex total' i [] d = ([], d)"
| "apply_loop ex total' i (statement # rest) d =
     (case apply_statement ex total' i statement d of
        (r, d') \<Rightarrow>
          (case apply_loop ex total' (i + 1) rest d' of
             (rs, d'') \<Rightarrow> (r # rs, d'')))"

text \<open>\<^verbatim>\<open>total = len(statements)\<close>, and the loop from \<open>i = 1\<close>.\<close>

definition apply_statements :: "'db executor \<Rightarrow> string list \<Rightarrow> 'db \<Rightarrow> round list \<times> 'db" where
  "apply_statements ex stmts d = apply_loop ex (length stmts) 1 stmts d"

text \<open>What a run of the loop shows: the statements submitted, and the lines printed.\<close>

definition exec_trace :: "round list \<Rightarrow> string list" where
  "exec_trace rs = concat (map (\<lambda>r. case call r of None \<Rightarrow> [] | Some s \<Rightarrow> [s]) rs)"

definition loop_output :: "round list \<Rightarrow> line list" where
  "loop_output rs = concat (map printed rs)"

text \<open>
  The counters of the specification's summary, read off the rounds, and its list of
  failure details, read off the printed warnings: the statement text of line 59 with
  the message of line 58.
\<close>

definition count_outcome :: "outcome \<Rightarrow> round list \<Rightarrow> nat" where
  "count_outcome x rs = length (filter (\<lambda>r. outcome r = x) rs)"

fun failed_details :: "line list \<Rightarrow> (string \<times> string) list" where
  "failed_details (Statement_warning i e # Statement_text t # ls) = (t, e) # failed_details ls"
| "failed_details (l # ls) = failed_details ls"
| "failed_details [] = []"

text \<open>
  A statement in the sense of the specification's data model: not empty and not
  beginning with the comment marker. The guard of line 43 lets exactly these through.
\<close>

definition is_statement :: "string \<Rightarrow> bool" where
  "is_statement s \<longleftrightarrow> s \<noteq> [] \<and> \<not> startswith s ''--''"

text \<open>
  The answers of the executor when it is called with the statements one after the
  other, and the classification of an answer in the words of the specification.
\<close>

fun exec_results :: "'db executor \<Rightarrow> string list \<Rightarrow> 'db \<Rightarrow> string option list" where
  "exec_results ex [] d = []"
| "exec_results ex (s # ss) d = (case ex s d of (r, d') \<Rightarrow> r # exec_results ex ss d')"

definition idempotent_conflict :: "string \<Rightarrow> bool" where
  "idempotent_conflict e \<longleftrightarrow>
     substring_in ''already exists'' (lower e) \<or> substring_in ''duplicate'' (lower e)"

definition classify_spec :: "string option \<Rightarrow> outcome" where
  "classify_spec answer =
     (case answer of
        None \<Rightarrow> Applied
      | Some e \<Rightarrow> if idempotent_conflict e then Skipped_idempotent else Failed)"

definition failed_details_spec :: "string list \<Rightarrow> string option list \<Rightarrow> (string \<times> string) list" where
  "failed_details_spec stmts answers =
     concat (map (\<lambda>(s, answer).
                    case answer of
                      None \<Rightarrow> []
                    | Some e \<Rightarrow> if idempotent_conflict e then [] else [(take 100 s, e)])
                 (zip stmts answers))"

section \<open>The existence verifier\<close>

text \<open>\<^verbatim>\<open>apply_migration_simple.py\<close>, line 72: the four expected tables.\<close>

definition tables :: "string list" where
  "tables = [''drill_scenarios'', ''drill_runs'', ''drill_executions'', ''drill_evaluations'']"

text \<open>
  The loop of \<^verbatim>\<open>apply_migration_simple.py\<close>, lines 75 to 81, over any list of names:
  a query that returns appends the name to \<open>existing_tables\<close> and prints its count, a
  query that raises prints that the table does not exist. The result is
  \<open>existing_tables\<close>, the printed lines and the state of the remote service.
\<close>

fun check_tables :: "'db querier \<Rightarrow> string list \<Rightarrow> 'db \<Rightarrow> string list \<times> line list \<times> 'db" where
  "check_tables q [] d = ([], [], d)"
| "check_tables q (table # rest) d =
     (case q table d of
        (Inr c, d') \<Rightarrow>
          (case check_tables q rest d' of
             (existing_tables, ls, d'') \<Rightarrow>
               (table # existing_tables, Table_exists table c # ls, d''))
      | (Inl e, d') \<Rightarrow>
          (case check_tables q rest d' of
             (existing_tables, ls, d'') \<Rightarrow>
               (existing_tables, Table_missing table # ls, d'')))"

text \<open>Lines 83 to 89: the three branches on \<open>len(existing_tables)\<close>, and the line each prints.\<close>

datatype migration_state = Complete | Partial | Not_started

definition migration_state :: "string list \<Rightarrow> migration_state" where
  "migration_state existing_tables =
     (if length existing_tables = 4 then Complete
      else if length existing_tables > 0 then Partial
      else Not_started)"

definition state_line :: "string list \<Rightarrow> line" where
  "state_line existing_tables =
     (case migration_state existing_tables of
        Complete \<Rightarrow> All_tables_exist
      | Partial \<Rightarrow> Partial_migration (length existing_tables)
      | Not_started \<Rightarrow> No_tables_found)"

text \<open>
  The verification of \<^verbatim>\<open>apply_migration.py\<close>, lines 75 to 78: the queries one after
  the other with no handler of their own, so the first one that raises ends them. The
  result is the exception or the counts, the tables queried and the state of the
  remote service.
\<close>

fun count_all :: "'db querier \<Rightarrow> string list \<Rightarrow> 'db \<Rightarrow> (string + int list) \<times> string list \<times> 'db" where
  "count_all q [] d = (Inr [], [], d)"
| "count_all q (table # rest) d =
     (case q table d of
        (Inl e, d') \<Rightarrow> (Inl e, [table], d')
      | (Inr c, d') \<Rightarrow>
          (case count_all q rest d' of
             (Inl e, queried, d'') \<Rightarrow> (Inl e, table # queried, d'')
           | (Inr cs, queried, d'') \<Rightarrow> (Inr (c # cs), table # queried, d'')))"

text \<open>
  The verifier in the words of the specification: each name maps to \<open>Exists count\<close>
  when the count query succeeds and to \<open>Missing\<close> on any error; the aggregate is
  \<open>Complete\<close> if every name maps to \<open>Exists\<close>, \<open>Not_started\<close> if none does, and
  \<open>Partial\<close> otherwise.
\<close>

datatype table_status = Exists int | Missing

fun verify_spec :: "'db querier \<Rightarrow> string list \<Rightarrow> 'db \<Rightarrow> (string \<times> table_status) list" where
  "verify_spec q [] d = []"
| "verify_spec q (name # names) d =
     (case q name d of
        (answer, d') \<Rightarrow>
          (name, case answer of Inr c \<Rightarrow> Exists c | Inl e \<Rightarrow> Missing) # verify_spec q names d')"

definition aggregate_spec :: "(string \<times> table_status) list \<Rightarrow> migration_state" where
  "aggregate_spec m =
     (if list_all (\<lambda>(name, status). status \<noteq> Missing) m then Complete
      else if list_all (\<lambda>(name, status). status = Missing) m then Not_started
      else Partial)"

fun status_line :: "string \<times> table_status \<Rightarrow> line" where
  "status_line (name, Exists c) = Table_exists name c"
| "status_line (name, Missing) = Table_missing name"

section \<open>The two scripts\<close>

text \<open>
  What a script finds on its host: the exception of
  \<^verbatim>\<open>from dotenv import load_dotenv\<close> and of \<^verbatim>\<open>from supabase import create_client\<close>,
  if the package is not there; the environment after \<open>load_dotenv\<close>; the text of the
  migration file (\<open>None\<close> when \<open>open\<close> raises); and the exception of the call of
  \<open>create_client\<close>, if any.
\<close>

record host =
  dotenv_import :: "string option"
  supabase_import :: "string option"
  getenv :: "string \<Rightarrow> string option"
  migration_file :: "string option"
  client_error :: "string option"

datatype error =
  ImportError string | ValueError string | IndexError | OSError | ClientError string

text \<open>
  A run ends with an uncaught exception (\<open>Inl\<close>) or normally; it has made remote
  calls and printed lines.
\<close>

record 'db run =
  result :: "error + unit"
  remote_calls :: "remote_call list"
  lines_out :: "line list"
  db_after :: 'db

text \<open>\<open>not v\<close> for a value of \<open>os.getenv\<close>: it is \<open>None\<close> or the empty string.\<close>

definition missing :: "string option \<Rightarrow> bool" where
  "missing v \<longleftrightarrow> (case v of None \<Rightarrow> True | Some s \<Rightarrow> s = [])"

definition fatal :: "error \<Rightarrow> line list \<Rightarrow> 'db \<Rightarrow> 'db run" where
  "fatal e ls d = \<lparr>result = Inl e, remote_calls = [], lines_out = ls, db_after = d\<rparr>"

text \<open>
  \<^verbatim>\<open>apply_migration.py\<close>. Both packages are imported at lines 6 and 7, before the
  credentials are checked at line 15 and before anything is printed; an import that
  fails ends the script there. The handler of line 87 catches what the verification
  raises (the loop catches its own exceptions); it prints the error and, whether or
  not \<open>psycopg2\<close> can be imported, the advice to run the migration by hand.
\<close>

definition apply_migration :: "host \<Rightarrow> 'db executor \<Rightarrow> 'db querier \<Rightarrow> 'db \<Rightarrow> 'db run" where
  "apply_migration h ex q d =
     (case dotenv_import h of
        Some e \<Rightarrow> fatal (ImportError e) [] d
      | None \<Rightarrow>
     (case supabase_import h of
        Some e \<Rightarrow> fatal (ImportError e) [] d
      | None \<Rightarrow>
     (let SUPABASE_URL = getenv h ''NEXT_PUBLIC_SUPABASE_URL'';
          SUPABASE_SERVICE_KEY = getenv h ''SUPABASE_SERVICE_ROLE_KEY''
      in if missing SUPABASE_URL \<or> missing SUPABASE_SERVICE_KEY
         then fatal (ValueError ''Missing Supabase credentials in .env.local'') [] d
         else
           (let url = (case SUPABASE_URL of Some u \<Rightarrow> u | None \<Rightarrow> [])
            in case client_error h of
                 Some e \<Rightarrow> fatal (ClientError e) [Connecting url] d
               | None \<Rightarrow>
                   (case migration_file h of
                      None \<Rightarrow> fatal OSError [Connecting url, Reading_migration_file] d
                    | Some migration_sql \<Rightarrow>
                        (let stmts = statements migration_sql
                         in case apply_statements ex stmts d of
                              (rs, d1) \<Rightarrow>
                                (case count_all q tables d1 of
                                   (counts, queried, d2) \<Rightarrow>
                                     \<lparr>result = Inr (),
                                      remote_calls = map Rpc_exec_sql (exec_trace rs)
                                                     @ map Select_count queried,
                                      lines_out =
                                        [Connecting url, Reading_migration_file,
                                         Applying_migration, Executing (length stmts)]
                                        @ loop_output rs
                                        @ [Migration_applied, Verifying_tables]
                                        @ (case counts of
                                             Inr cs \<Rightarrow> map2 Table_exists tables cs @ [All_verified]
                                           | Inl e \<Rightarrow> [Error_applying e, Run_manually url]),
                                      db_after = d2\<rparr>)))))))"

text \<open>
  \<^verbatim>\<open>apply_migration_simple.py\<close>, line 19:
  \<^verbatim>\<open>project_ref = SUPABASE_URL.split('//')[1].split('.')[0]\<close>, an \<open>IndexError\<close> when the
  URL has no \<open>//\<close>.
\<close>

definition project_ref :: "string \<Rightarrow> string option" where
  "project_ref url =
     (case cut_at ''//'' url of
        None \<Rightarrow> None
      | Some (scheme, after) \<Rightarrow>
          Some (takeWhile (\<lambda>c. c \<noteq> CHR ''.'')
                  (case cut_at ''//'' after of
                     None \<Rightarrow> after
                   | Some (before, behind) \<Rightarrow> before)))"

text \<open>
  \<^verbatim>\<open>apply_migration_simple.py\<close>. It imports \<open>dotenv\<close> at line 7, before the
  credentials are checked at line 15. It submits no statement; it prints the ways to
  apply the migration by hand and checks the tables. The import of \<open>supabase\<close> is
  at line 67, inside the \<open>try\<close>: the handler of line 91 catches what that import or
  \<open>create_client\<close> raises (the loop catches the exceptions of the queries).
\<close>

definition apply_migration_simple :: "host \<Rightarrow> 'db querier \<Rightarrow> 'db \<Rightarrow> 'db run" where
  "apply_migration_simple h q d =
     (case dotenv_import h of
        Some e \<Rightarrow> fatal (ImportError e) [] d
      | None \<Rightarrow>
     (let SUPABASE_URL = getenv h ''NEXT_PUBLIC_SUPABASE_URL'';
          SUPABASE_SERVICE_KEY = getenv h ''SUPABASE_SERVICE_ROLE_KEY''
      in if missing SUPABASE_URL \<or> missing SUPABASE_SERVICE_KEY
         then fatal (ValueError ''Missing Supabase credentials in .env.local'') [] d
         else
           (let url = (case SUPABASE_URL of Some u \<Rightarrow> u | None \<Rightarrow> [])
            in case project_ref url of
                 None \<Rightarrow> fatal IndexError [] d
               | Some ref \<Rightarrow>
                   (case migration_file h of
                      None \<Rightarrow>
                        fatal OSError [Connecting_project ref, Url url, Reading_migration_file] d
                    | Some migration_sql \<Rightarrow>
                        (let shown = [Connecting_project ref, Url url, Reading_migration_file,
                                      File_size (length migration_sql), Options url ref,
                                      Checking_tables]
                         in case (case supabase_import h of
                                    Some e \<Rightarrow> Some e
                                  | None \<Rightarrow> client_error h) of
                              Some e \<Rightarrow>
                                \<lparr>result = Inr (), remote_calls = [],
                                 lines_out = shown @ [Could_not_verify e], db_after = d\<rparr>
                            | None \<Rightarrow>
                                (case check_tables q tables d of
                                   (existing_tables, ls, d') \<Rightarrow>
                                     \<lparr>result = Inr (),
                                      remote_calls = map Select_count tables,
                                      lines_out = shown @ ls @ [state_line existing_tables],
                                      db_after = d'\<rparr>))))))"

section \<open>Sample inputs\<close>

text \<open>
  A remote service without state of its own, for evaluating the definitions: the
  executor rejects a table that is there already and a statement it cannot parse.
\<close>

definition sample_executor :: "unit executor" where
  "sample_executor statement d =
     (if statement = ''CREATE TABLE t (x int)'' then Some ''Relation t Already Exists''
      else if statement = ''DROP x'' then Some ''syntax error at end of input''
      else None, d)"

definition sample_statements :: "string list" where
  "sample_statements = [''CREATE TABLE t (x int)'', ''CREATE INDEX i ON t (x)'', ''DROP x'']"

definition every_table_exists :: "unit querier" where
  "every_table_exists name d = (Inr 0, d)"

definition scenarios_missing :: "unit querier" where
  "scenarios_missing name d =
     (if name = ''drill_scenarios'' then Inl ''relation does not exist'' else Inr 0, d)"

definition sample_env :: "string \<Rightarrow> string option" where
  "sample_env name =
     (if name = ''NEXT_PUBLIC_SUPABASE_URL'' then Some ''https://abc.supabase.co''
      else if name = ''SUPABASE_SERVICE_ROLE_KEY'' then Some ''secret''
      else None)"

definition sample_host :: host where
  "sample_host =
     \<lparr>dotenv_import = None, supabase_import = None, getenv = sample_env,
      migration_file = Some ''CREATE TABLE t (x int); CREATE INDEX i ON t (x)'',
      client_error = None\<rparr>"

definition host_without_key :: host where
  "host_without_key =
     \<lparr>dotenv_import = None, supabase_import = None,
      getenv = (sample_env)(''SUPABASE_SERVICE_ROLE_KEY'' := None),
      migration_file = Some ''CREATE TABLE t (x int)'', client_error = None\<rparr>"

definition host_without_key_or_package :: host where
  "host_without_key_or_package =
     \<lparr>dotenv_import = None, supabase_import = Some ''No module named supabase'',
      getenv = (sample_env)(''SUPABASE_SERVICE_ROLE_KEY'' := None),
      migration_file = Some ''CREATE TABLE t (x int)'', client_error = None\<rparr>"

section \<open>Properties of the splitter\<close>

lemma str_split_Nil: "str_split sep [] = [[]]"
  by (simp add: str_split.simps)

lemma str_split_not_Nil: "str_split sep s \<noteq> []"
  by (subst str_split.simps) (simp split: list.splits)

lemma str_split_Cons:
  "str_split sep (c # cs) =
     (if c = sep then [] # str_split sep cs
      else (c # hd (str_split sep cs)) # tl (str_split sep cs))"
proof (cases "c = sep")
  case True
  then show ?thesis by (subst str_split.simps) simp
next
  case False
  show ?thesis
  proof (cases "dropWhile (\<lambda>c. c \<noteq> sep) cs")
    case Nil
    have "str_split sep (c # cs) = [c # cs]"
      using False by (subst str_split.simps) (simp add: Nil)
    moreover have "str_split sep cs = [cs]"
      by (subst str_split.simps) (simp add: Nil)
    ultimately show ?thesis using False by simp
  next
    case (Cons x rest)
    have "str_split sep (c # cs) = (c # takeWhile (\<lambda>c. c \<noteq> sep) cs) # str_split sep rest"
      using False by (subst str_split.simps) (simp add: Cons)
    moreover have "str_split sep cs = takeWhile (\<lambda>c. c \<noteq> sep) cs # str_split sep rest"
      by (subst str_split.simps) (simp add: Cons)
    ultimately show ?thesis using False by simp
  qed
qed

lemma str_split_no_sep: "f \<in> set (str_split sep s) \<Longrightarrow> sep \<notin> set f"
proof (induction s arbitrary: f)
  case Nil
  then show ?case by (simp add: str_split_Nil)
next
  case (Cons c cs)
  show ?case
  proof (cases "c = sep")
    case True
    with Cons show ?thesis by (auto simp: str_split_Cons)
  next
    case False
    obtain g gs where g: "str_split sep cs = g # gs"
      using str_split_not_Nil [of sep cs] by (cases "str_split sep cs") auto
    with Cons False show ?thesis by (auto simp: str_split_Cons)
  qed
qed

lemma str_join_Cons: "fs \<noteq> [] \<Longrightarrow> str_join sep (f # fs) = f @ sep # str_join sep fs"
  by (cases fs) simp_all

lemma str_join_split: "str_join sep (str_split sep s) = s"
proof (induction s)
  case Nil
  then show ?case by (simp add: str_split_Nil)
next
  case (Cons c cs)
  obtain g gs where g: "str_split sep cs = g # gs"
    using str_split_not_Nil [of sep cs] by (cases "str_split sep cs") auto
  show ?case
  proof (cases "c = sep")
    case True
    with Cons show ?thesis by (simp add: str_split_Cons str_join_Cons str_split_not_Nil)
  next
    case False
    with Cons g show ?thesis by (cases gs) (simp_all add: str_split_Cons)
  qed
qed

lemma set_str_strip: "set (str_strip s) \<subseteq> set s"
proof -
  have "set (str_strip s) = set (dropWhile isspace (rev (dropWhile isspace s)))"
    by (simp add: str_strip_def)
  also have "\<dots> \<subseteq> set (rev (dropWhile isspace s))"
    using set_dropWhileD by fastforce
  also have "\<dots> \<subseteq> set s"
    using set_dropWhileD by fastforce
  finally show ?thesis .
qed

lemma statements_split_spec: "statements sql = split_spec sql"
  by (simp add: statements_def split_spec_def filter_map comp_def)


text \<open>
  Claim C3. The statements are exactly the fragments between the semicolons of the
  text (joining the fragments with \<open>;\<close> gives the text back, and no fragment holds a
  \<open>;\<close>), each trimmed, without the fragments that are empty or begin with \<open>--\<close>
  after trimming, in their order; the three examples of the specification evaluate
  as it says. The function is total: there is no input on which it fails.
\<close>

theorem statements_fragments_trimmed_filtered:
  "statements sql = split_spec sql
   \<and> str_join (CHR '';'') (str_split (CHR '';'') sql) = sql
   \<and> (\<forall>f\<in>set (str_split (CHR '';'') sql). CHR '';'' \<notin> set f)
   \<and> statements [] = []
   \<and> statements ''-- comment only'' = []
   \<and> statements ''A; B;;  C '' = [''A'', ''B'', ''C'']"
proof -
  have "statements [] = []" by code_simp
  moreover have "statements ''-- comment only'' = []" by code_simp
  moreover have "statements ''A; B;;  C '' = [''A'', ''B'', ''C'']" by code_simp
  ultimately show ?thesis
    by (simp add: statements_split_spec str_join_split str_split_no_sep)
qed

theorem statements_fragments_trimmed_filtered_witness:
  "str_split (CHR '';'') ''A; B;;  C '' = [''A'', '' B'', [], ''  C '']
   \<and> CHR '';'' \<notin> set '' B''
   \<and> split_spec ''A; B;;  C '' = [''A'', ''B'', ''C'']
   \<and> str_join (CHR '';'') [''A'', '' B'', [], ''  C ''] = ''A; B;;  C ''"
proof -
  have split: "str_split (CHR '';'') ''A; B;;  C '' = [''A'', '' B'', [], ''  C '']"
    by code_simp
  note w = statements_fragments_trimmed_filtered [of "''A; B;;  C ''"]
  from w have spec: "split_spec ''A; B;;  C '' = statements ''A; B;;  C ''"
    by (elim conjE) (erule sym)
  from w have ex: "statements ''A; B;;  C '' = [''A'', ''B'', ''C'']"
    by blast
  from w have join: "str_join (CHR '';'') (str_split (CHR '';'') ''A; B;;  C '') = ''A; B;;  C ''"
    by blast
  from join show ?thesis
    by (simp add: split spec ex)
qed

text \<open>
  Claim C9. No statement that the splitter returns holds a \<open>;\<close>.
\<close>

theorem statements_no_semicolon: "s \<in> set (statements sql) \<Longrightarrow> CHR '';'' \<notin> set s"
proof -
  assume "s \<in> set (statements sql)"
  then obtain f where f: "f \<in> set (str_split (CHR '';'') sql)" and s: "s = str_strip f"
    by (auto simp: statements_def)
  from f have "CHR '';'' \<notin> set f" by (rule str_split_no_sep)
  with s set_str_strip [of f] show ?thesis by auto
qed

theorem statements_no_semicolon_witness:
  "''B'' \<in> set (statements ''A; B;;  C '') \<and> CHR '';'' \<notin> set ''B''"
proof -
  have mem: "''B'' \<in> set (statements ''A; B;;  C '')" by code_simp
  from statements_no_semicolon [OF mem] mem show ?thesis by simp
qed

section \<open>Properties of the applier\<close>

text \<open>The three paths of a round that gets past the guard of line 43.\<close>

lemma apply_statement_cases:
  assumes "is_statement s"
  obtains d' where "ex s d = (None, d')"
      "apply_statement ex n i s d = (\<lparr>call = Some s, outcome = Applied,
          printed = (if i mod 10 = 0 then [Progress i n] else [])\<rparr>, d')"
  | e d' where "ex s d = (Some e, d')" "idempotent_conflict e"
      "apply_statement ex n i s d =
         (\<lparr>call = Some s, outcome = Skipped_idempotent, printed = []\<rparr>, d')"
  | e d' where "ex s d = (Some e, d')" "\<not> idempotent_conflict e"
      "apply_statement ex n i s d = (\<lparr>call = Some s, outcome = Failed,
          printed = [Statement_warning i e, Statement_text (take 100 s)]\<rparr>, d')"
proof (cases "ex s d")
  case (Pair answer d')
  show ?thesis
  proof (cases answer)
    case None
    with Pair assms show ?thesis
      by (intro that(1) [of d']) (simp_all add: apply_statement_def is_statement_def)
  next
    case (Some e)
    show ?thesis
    proof (cases "idempotent_conflict e")
      case True
      with Pair Some assms show ?thesis
        by (intro that(2) [of e d'])
           (auto simp: apply_statement_def is_statement_def idempotent_conflict_def Let_def)
    next
      case False
      with Pair Some assms show ?thesis
        by (intro that(3) [of e d'])
           (auto simp: apply_statement_def is_statement_def idempotent_conflict_def Let_def)
    qed
  qed
qed




lemma outcomes_apply_loop:
  "\<forall>s\<in>set stmts. is_statement s \<Longrightarrow>
     map outcome (fst (apply_loop ex n i stmts d)) = map classify_spec (exec_results ex stmts d)"
proof (induction stmts arbitrary: i d)
  case Nil
  then show ?case by simp
next
  case (Cons s stmts)
  then have s: "is_statement s" and rest: "\<forall>s\<in>set stmts. is_statement s" by simp_all
  from s show ?case
    by (cases rule: apply_statement_cases [of s ex d n i])
       (simp_all add: classify_spec_def Cons.IH [OF rest] split_beta)
qed

lemma failed_details_apply_loop:
  "\<forall>s\<in>set stmts. is_statement s \<Longrightarrow>
     failed_details (loop_output (fst (apply_loop ex n i stmts d)))
       = failed_details_spec stmts (exec_results ex stmts d)"
proof (induction stmts arbitrary: i d)
  case Nil
  then show ?case by (simp add: loop_output_def failed_details_spec_def)
next
  case (Cons s stmts)
  then have s: "is_statement s" and rest: "\<forall>s\<in>set stmts. is_statement s" by simp_all
  have IH: "\<And>i d. failed_details (concat (map printed (fst (apply_loop ex n i stmts d))))
       = concat (map (\<lambda>(s, answer). case answer of None \<Rightarrow> []
                    | Some e \<Rightarrow> if idempotent_conflict e then [] else [(take 100 s, e)])
                 (zip stmts (exec_results ex stmts d)))"
    using Cons.IH [OF rest] by (simp add: loop_output_def failed_details_spec_def)
  from s show ?case
    by (cases rule: apply_statement_cases [of s ex d n i])
       (simp_all add: loop_output_def failed_details_spec_def IH split_beta)
qed

lemma count_outcome_Cons:
  "count_outcome x (r # rs) = (if outcome r = x then 1 else 0) + count_outcome x rs"
  by (simp add: count_outcome_def)


lemma count_failed_apply_loop:
  "\<forall>s\<in>set stmts. is_statement s \<Longrightarrow>
     count_outcome Failed (fst (apply_loop ex n i stmts d))
       = length (failed_details_spec stmts (exec_results ex stmts d))"
proof (induction stmts arbitrary: i d)
  case Nil
  then show ?case by (simp add: count_outcome_def failed_details_spec_def)
next
  case (Cons s stmts)
  then have s: "is_statement s" and rest: "\<forall>s\<in>set stmts. is_statement s" by simp_all
  have IH: "\<And>i d. count_outcome Failed (fst (apply_loop ex n i stmts d))
       = length (concat (map (\<lambda>(s, answer). case answer of None \<Rightarrow> []
                    | Some e \<Rightarrow> if idempotent_conflict e then [] else [(take 100 s, e)])
                 (zip stmts (exec_results ex stmts d))))"
    using Cons.IH [OF rest] by (simp add: failed_details_spec_def)
  from s show ?case
    by (cases rule: apply_statement_cases [of s ex d n i])
       (simp_all add: count_outcome_Cons failed_details_spec_def IH split_beta)
qed

lemma sample_statements_are_statements:
  "is_statement ''CREATE TABLE t (x int)'' \<and> is_statement ''CREATE INDEX i ON t (x)''
   \<and> is_statement ''DROP x''"
  by (simp add: is_statement_def startswith_def)




text \<open>
  Claim C2. A statement whose execution raises is classified by the lowercase
  message alone. If the message contains \<open>already exists\<close> or \<open>duplicate\<close>, the round
  is SkippedIdempotent and prints nothing; otherwise it is Failed and prints the
  message and the first 100 characters of the statement. Over a whole run the
  outcomes are the classification of the executor's answers, the failure details are
  exactly the entries of the statements that failed with another message, in order,
  and the Failed count is their number.
\<close>

theorem failing_statement_classified:
  "(is_statement s \<and> ex s d = (Some e, d') \<longrightarrow>
      apply_statement ex n i s d =
        (if substring_in ''already exists'' (lower e) \<or> substring_in ''duplicate'' (lower e)
         then (\<lparr>call = Some s, outcome = Skipped_idempotent, printed = []\<rparr>, d')
         else (\<lparr>call = Some s, outcome = Failed,
                printed = [Statement_warning i e, Statement_text (take 100 s)]\<rparr>, d')))
   \<and> ((\<forall>s\<in>set stmts. is_statement s) \<longrightarrow>
        map outcome (fst (apply_statements ex stmts d))
          = map classify_spec (exec_results ex stmts d)
        \<and> failed_details (loop_output (fst (apply_statements ex stmts d)))
          = failed_details_spec stmts (exec_results ex stmts d)
        \<and> count_outcome Failed (fst (apply_statements ex stmts d))
          = length (failed_details_spec stmts (exec_results ex stmts d)))"
proof -
  have step: "apply_statement ex n i s d =
        (if substring_in ''already exists'' (lower e) \<or> substring_in ''duplicate'' (lower e)
         then (\<lparr>call = Some s, outcome = Skipped_idempotent, printed = []\<rparr>, d')
         else (\<lparr>call = Some s, outcome = Failed,
                printed = [Statement_warning i e, Statement_text (take 100 s)]\<rparr>, d'))"
    if "is_statement s" "ex s d = (Some e, d')"
    using that by (simp add: apply_statement_def is_statement_def)
  have run: "map outcome (fst (apply_statements ex stmts d))
          = map classify_spec (exec_results ex stmts d)
        \<and> failed_details (loop_output (fst (apply_statements ex stmts d)))
          = failed_details_spec stmts (exec_results ex stmts d)
        \<and> count_outcome Failed (fst (apply_statements ex stmts d))
          = length (failed_details_spec stmts (exec_results ex stmts d))"
    if "\<forall>s\<in>set stmts. is_statement s"
    using that
    by (simp add: apply_statements_def outcomes_apply_loop failed_details_apply_loop
        count_failed_apply_loop)
  from step run show ?thesis by blast
qed

theorem failing_statement_classified_witness:
  "is_statement ''DROP x''
   \<and> sample_executor ''DROP x'' () = (Some ''syntax error at end of input'', ())
   \<and> apply_statement sample_executor 3 3 ''DROP x'' ()
       = (\<lparr>call = Some ''DROP x'', outcome = Failed,
           printed = [Statement_warning 3 ''syntax error at end of input'',
                      Statement_text ''DROP x'']\<rparr>, ())
   \<and> is_statement ''CREATE TABLE t (x int)'' \<and> is_statement ''CREATE INDEX i ON t (x)''
   \<and> map outcome (fst (apply_statements sample_executor sample_statements ()))
       = [Skipped_idempotent, Applied, Failed]
   \<and> failed_details (loop_output (fst (apply_statements sample_executor sample_statements ())))
       = [(''DROP x'', ''syntax error at end of input'')]
   \<and> count_outcome Failed (fst (apply_statements sample_executor sample_statements ())) = 1"
proof -
  have valid: "\<forall>s\<in>set sample_statements. is_statement s"
    using sample_statements_are_statements by (simp add: sample_statements_def)
  have drop: "is_statement ''DROP x''"
    using sample_statements_are_statements by simp
  have answer: "sample_executor ''DROP x'' () = (Some ''syntax error at end of input'', ())"
    by (simp add: sample_executor_def)
  have other: "\<not> (substring_in ''already exists'' (lower ''syntax error at end of input'')
      \<or> substring_in ''duplicate'' (lower ''syntax error at end of input''))"
    by code_simp
  have answers: "exec_results sample_executor sample_statements ()
      = [Some ''Relation t Already Exists'', None, Some ''syntax error at end of input'']"
    by code_simp
  have classes:
    "classify_spec (Some ''Relation t Already Exists'') = Skipped_idempotent"
    "classify_spec None = Applied"
    "classify_spec (Some ''syntax error at end of input'') = Failed"
    by code_simp+
  have details: "failed_details_spec sample_statements
      [Some ''Relation t Already Exists'', None, Some ''syntax error at end of input'']
      = [(''DROP x'', ''syntax error at end of input'')]"
    by code_simp
  note w = failing_statement_classified [of "''DROP x''" sample_executor "()"
      "''syntax error at end of input''" "()" 3 3 sample_statements]
  from w drop answer other have
    "apply_statement sample_executor 3 3 ''DROP x'' ()
       = (\<lparr>call = Some ''DROP x'', outcome = Failed,
           printed = [Statement_warning 3 ''syntax error at end of input'',
                      Statement_text ''DROP x'']\<rparr>, ())"
    by simp
  moreover from w valid have
    "map outcome (fst (apply_statements sample_executor sample_statements ()))
       = [Skipped_idempotent, Applied, Failed]
     \<and> failed_details (loop_output (fst (apply_statements sample_executor sample_statements ())))
       = [(''DROP x'', ''syntax error at end of input'')]
     \<and> count_outcome Failed (fst (apply_statements sample_executor sample_statements ())) = 1"
    by (simp add: answers classes details)
  ultimately show ?thesis
    using sample_statements_are_statements answer by simp
qed



text \<open>
  Claim C10. A fragment that begins with a comment line is dropped whole: for the
  text \<open>-- note\<close>, a line break, \<open>CREATE TABLE t(x int)\<close> the splitter returns no
  statement, and nothing is submitted to the executor.
\<close>

theorem leading_comment_drops_statement:
  "statements ''-- note\<newline>CREATE TABLE t(x int)'' = []
   \<and> exec_trace (fst (apply_statements ex (statements ''-- note\<newline>CREATE TABLE t(x int)'') d)) = []"
proof -
  have "statements ''-- note\<newline>CREATE TABLE t(x int)'' = []"
    by code_simp
  then show ?thesis
    by (simp add: apply_statements_def exec_trace_def)
qed

section \<open>Properties of the verifier\<close>

lemma check_tables_lines:
  "fst (snd (check_tables q names d)) = map status_line (verify_spec q names d)"
  by (induction names arbitrary: d) (simp_all add: split_beta split: sum.splits)

lemma check_tables_existing:
  "fst (check_tables q names d)
     = map fst (filter (\<lambda>(name, status). status \<noteq> Missing) (verify_spec q names d))"
  by (induction names arbitrary: d) (simp_all add: split_beta split: sum.splits)

lemma length_verify_spec: "length (verify_spec q names d) = length names"
  by (induction names arbitrary: d) (simp_all add: split_beta)

lemma length_filter_full: "length (filter P xs) = length xs \<longleftrightarrow> (\<forall>x\<in>set xs. P x)"
  by (metis filter_id_conv length_filter_less less_irrefl)

lemma migration_state_four:
  assumes "length names = 4"
  shows "migration_state (fst (check_tables q names d)) = aggregate_spec (verify_spec q names d)"
proof -
  let ?m = "verify_spec q names d"
  let ?P = "\<lambda>(name :: string, status). status \<noteq> Missing"
  have len: "length (fst (check_tables q names d)) = length (filter ?P ?m)"
    by (simp add: check_tables_existing)
  have m: "length ?m = 4"
    using assms by (simp add: length_verify_spec)
  have all: "length (filter ?P ?m) = 4 \<longleftrightarrow> list_all ?P ?m"
    using length_filter_full [of ?P ?m] m by (simp add: list_all_iff)
  have none: "length (filter ?P ?m) = 0 \<longleftrightarrow> list_all (\<lambda>(name, status). status = Missing) ?m"
    by (auto simp: list_all_iff filter_empty_conv)
  show ?thesis
    unfolding migration_state_def aggregate_spec_def len
    using all none by auto
qed

lemma length_tables: "length tables = 4"
  by (simp add: tables_def)

text \<open>
  Claim C5. In \<^verbatim>\<open>apply_migration_simple.py\<close>, for every querier and every state of
  the remote service, the loop prints for each name, in order, that it exists with
  its count when the count query returns, and that it is missing when the query
  raises, and \<open>existing_tables\<close> holds the names that exist. On the script's list of
  four names (and on any list of four names) the branch taken on
  \<open>len(existing_tables)\<close> is Complete when every name exists, NotStarted when none
  does, and Partial otherwise.
\<close>

theorem check_tables_status_and_aggregate:
  "fst (snd (check_tables q names d)) = map status_line (verify_spec q names d)
   \<and> fst (check_tables q names d)
       = map fst (filter (\<lambda>(name, status). status \<noteq> Missing) (verify_spec q names d))
   \<and> (length names = 4 \<longrightarrow>
        migration_state (fst (check_tables q names d)) = aggregate_spec (verify_spec q names d))
   \<and> migration_state (fst (check_tables q tables d)) = aggregate_spec (verify_spec q tables d)"
proof -
  have "migration_state (fst (check_tables q tables d)) = aggregate_spec (verify_spec q tables d)"
    by (rule migration_state_four [OF length_tables])
  moreover have "length names = 4 \<longrightarrow>
      migration_state (fst (check_tables q names d)) = aggregate_spec (verify_spec q names d)"
    by (simp add: migration_state_four)
  ultimately show ?thesis
    using check_tables_lines [of q names d] check_tables_existing [of q names d] by blast
qed

theorem check_tables_status_and_aggregate_witness:
  "length tables = 4
   \<and> verify_spec scenarios_missing tables ()
       = [(''drill_scenarios'', Missing), (''drill_runs'', Exists 0),
          (''drill_executions'', Exists 0), (''drill_evaluations'', Exists 0)]
   \<and> aggregate_spec (verify_spec scenarios_missing tables ()) = Partial
   \<and> migration_state (fst (check_tables scenarios_missing tables ())) = Partial
   \<and> fst (check_tables scenarios_missing tables ())
       = [''drill_runs'', ''drill_executions'', ''drill_evaluations'']"
proof -
  have m: "verify_spec scenarios_missing tables ()
       = [(''drill_scenarios'', Missing), (''drill_runs'', Exists 0),
          (''drill_executions'', Exists 0), (''drill_evaluations'', Exists 0)]"
    by code_simp
  have a: "aggregate_spec
        [(''drill_scenarios'', Missing), (''drill_runs'', Exists 0),
         (''drill_executions'', Exists 0), (''drill_evaluations'', Exists 0)] = Partial"
    by code_simp
  note w = check_tables_status_and_aggregate [of scenarios_missing tables "()"]
  from w length_tables
  have "migration_state (fst (check_tables scenarios_missing tables ()))
      = aggregate_spec (verify_spec scenarios_missing tables ())"
    by blast
  then have state: "migration_state (fst (check_tables scenarios_missing tables ())) = Partial"
    by (simp only: m a)
  from w have "fst (check_tables scenarios_missing tables ())
      = map fst (filter (\<lambda>(name, status). status \<noteq> Missing)
          (verify_spec scenarios_missing tables ()))"
    by blast
  then have existing: "fst (check_tables scenarios_missing tables ())
      = [''drill_runs'', ''drill_executions'', ''drill_evaluations'']"
    by (simp add: m)
  show ?thesis
    using length_tables state existing by (simp only: m a)
qed

text \<open>
  In \<^verbatim>\<open>apply_migration.py\<close> a query that raises is the last one made; the loop of
  \<^verbatim>\<open>apply_migration_simple.py\<close> prints one line for every name.
\<close>

lemma count_all_first_error:
  "q table d = (Inl e, d') \<Longrightarrow> count_all q (table # rest) d = (Inl e, [table], d')"
  by simp

lemma check_tables_reports_each_name:
  "length (fst (snd (check_tables q names d))) = length names"
  by (simp add: check_tables_lines length_verify_spec)

text \<open>
  Claim C6, where the code departs from it. With the query on \<open>drill_scenarios\<close>
  raising and the other three tables in place, \<^verbatim>\<open>apply_migration.py\<close> ends normally
  but makes no further query and prints no status of any table: the exception leaves
  the verification for the handler of line 87, which reports an error of the
  migration. \<^verbatim>\<open>apply_migration_simple.py\<close>, on the same remote service, reports
  the missing table, the three others and a partial migration.
\<close>

theorem verification_error_ends_status_report:
  "apply_migration sample_host sample_executor scenarios_missing ()
     = \<lparr>result = Inr (),
        remote_calls = [Rpc_exec_sql ''CREATE TABLE t (x int)'',
                        Rpc_exec_sql ''CREATE INDEX i ON t (x)'',
                        Select_count ''drill_scenarios''],
        lines_out = [Connecting ''https://abc.supabase.co'', Reading_migration_file,
                     Applying_migration, Executing 2, Migration_applied, Verifying_tables,
                     Error_applying ''relation does not exist'',
                     Run_manually ''https://abc.supabase.co''],
        db_after = ()\<rparr>
   \<and> apply_migration_simple sample_host scenarios_missing ()
     = \<lparr>result = Inr (),
        remote_calls = [Select_count ''drill_scenarios'', Select_count ''drill_runs'',
                        Select_count ''drill_executions'', Select_count ''drill_evaluations''],
        lines_out = [Connecting_project ''abc'', Url ''https://abc.supabase.co'',
                     Reading_migration_file, File_size 47,
                     Options ''https://abc.supabase.co'' ''abc'', Checking_tables,
                     Table_missing ''drill_scenarios'', Table_exists ''drill_runs'' 0,
                     Table_exists ''drill_executions'' 0,
                     Table_exists ''drill_evaluations'' 0, Partial_migration 3],
        db_after = ()\<rparr>"
  by code_simp

section \<open>Properties of the scripts\<close>

text \<open>
  Claim C7. If the URL or the service key is missing from the environment (unset or
  empty), either script ends with an uncaught exception and has made no remote call.
  The exception is the \<open>ValueError\<close> of line 16, unless an import above the check has
  failed already: then it is that \<open>ImportError\<close>.
\<close>

theorem missing_credentials_fatal:
  "missing (getenv h ''NEXT_PUBLIC_SUPABASE_URL'')
     \<or> missing (getenv h ''SUPABASE_SERVICE_ROLE_KEY'') \<Longrightarrow>
   result (apply_migration h ex q d)
     = Inl (case dotenv_import h of
              Some e \<Rightarrow> ImportError e
            | None \<Rightarrow>
                (case supabase_import h of
                   Some e \<Rightarrow> ImportError e
                 | None \<Rightarrow> ValueError ''Missing Supabase credentials in .env.local''))
   \<and> remote_calls (apply_migration h ex q d) = []
   \<and> result (apply_migration_simple h q d)
     = Inl (case dotenv_import h of
              Some e \<Rightarrow> ImportError e
            | None \<Rightarrow> ValueError ''Missing Supabase credentials in .env.local'')
   \<and> remote_calls (apply_migration_simple h q d) = []"
  by (simp add: apply_migration_def apply_migration_simple_def fatal_def Let_def
      split: option.splits)

theorem missing_credentials_fatal_witness:
  "missing (getenv host_without_key ''SUPABASE_SERVICE_ROLE_KEY'')
   \<and> result (apply_migration host_without_key sample_executor every_table_exists ())
     = Inl (ValueError ''Missing Supabase credentials in .env.local'')
   \<and> remote_calls (apply_migration host_without_key sample_executor every_table_exists ()) = []
   \<and> result (apply_migration_simple host_without_key every_table_exists ())
     = Inl (ValueError ''Missing Supabase credentials in .env.local'')
   \<and> remote_calls (apply_migration_simple host_without_key every_table_exists ()) = []"
proof -
  have unset: "missing (getenv host_without_key ''SUPABASE_SERVICE_ROLE_KEY'')"
    by (simp add: host_without_key_def missing_def)
  then have "missing (getenv host_without_key ''NEXT_PUBLIC_SUPABASE_URL'')
     \<or> missing (getenv host_without_key ''SUPABASE_SERVICE_ROLE_KEY'')"
    by simp
  from missing_credentials_fatal [OF this, of sample_executor every_table_exists "()"] unset
  show ?thesis by (simp add: host_without_key_def)
qed

text \<open>
  With the key unset and the \<open>supabase\<close> package absent, \<^verbatim>\<open>apply_migration.py\<close> ends
  with the import error of line 7, and \<^verbatim>\<open>apply_migration_simple.py\<close>, which imports
  the package later, with the \<open>ValueError\<close>.
\<close>

lemma missing_key_and_package:
  "apply_migration host_without_key_or_package sample_executor every_table_exists ()
     = \<lparr>result = Inl (ImportError ''No module named supabase''), remote_calls = [],
        lines_out = [], db_after = ()\<rparr>
   \<and> apply_migration_simple host_without_key_or_package every_table_exists ()
     = \<lparr>result = Inl (ValueError ''Missing Supabase credentials in .env.local''),
        remote_calls = [], lines_out = [], db_after = ()\<rparr>"
  by code_simp

end
